theory Spec2Isabelle
  imports Main "HOL-Library.Char_ord" "HOL-Library.List_Lexorder" "HOL-Library.Sublist"
begin

section \<open>Strings\<close>

text \<open>
  A Go string is a sequence of bytes; so is a HOL \<open>string\<close>. Go compares strings byte by
  byte, a proper prefix coming first, which is the lexicographic order on \<open>char list\<close>.
  The bytes that cannot be written inside a HOL string literal get a name.
\<close>

abbreviation squote :: char where "squote \<equiv> CHR 0x27"
abbreviation dquote :: char where "dquote \<equiv> CHR 0x22"
abbreviation backslash :: char where "backslash \<equiv> CHR 0x5C"
abbreviation newline :: char where "newline \<equiv> CHR 0x0A"

subsection \<open>internal/bash/variables.go: bashQuoteString\<close>

text \<open>
  \<^verbatim>\<open>strings.ReplaceAll(s, old, new)\<close> of the Go library, for an \<open>old\<close> of one byte, which
  is how \<^verbatim>\<open>bashQuoteString\<close> calls it: the bytes of \<open>s\<close> are read left to right and each
  occurrence of \<open>old\<close> is replaced by \<open>new\<close>.
\<close>

fun ReplaceAll :: "string \<Rightarrow> char \<Rightarrow> string \<Rightarrow> string" where
  "ReplaceAll [] old new = []"
| "ReplaceAll (c # s) old new =
     (if c = old then new @ ReplaceAll s old new else c # ReplaceAll s old new)"

definition bashQuoteString :: "string \<Rightarrow> string" where
  "bashQuoteString s =
     [squote] @ ReplaceAll s squote [squote, backslash, squote, squote] @ [squote]"

subsection \<open>The shell's reading of a quoted word\<close>

text \<open>
  The reader's side of the quoting contract, after the shell language's rules for quote
  removal: outside quotes a single quote opens a quoted stretch, a backslash makes the
  next byte literal (a backslash before a newline is a line continuation and vanishes),
  and an ordinary byte stands for itself; inside single quotes every byte up to the
  closing single quote is literal. \<open>shell_word inq w\<close> is the value of the text \<open>w\<close> read
  as one word, starting inside (\<open>inq\<close>) or outside a single-quoted stretch. The result is
  \<open>None\<close> when \<open>w\<close> is not one word made of literal bytes only: an unquoted blank, operator,
  expansion or pattern byte, a quote left open, or a trailing backslash.
\<close>

definition shell_special :: "char \<Rightarrow> bool" where
  "shell_special c = (c \<in> set ('' |&;()<>$`*?[]{}~#!'' @ [dquote, newline, CHR 0x09]))"

fun shell_word :: "bool \<Rightarrow> string \<Rightarrow> string option" where
  "shell_word True [] = None"
| "shell_word True (c # cs) =
     (if c = squote then shell_word False cs
      else map_option ((#) c) (shell_word True cs))"
| "shell_word False [] = Some []"
| "shell_word False (c # cs) =
     (if c = squote then shell_word True cs
      else if c = backslash then
        (case cs of
           [] \<Rightarrow> None
         | d # ds \<Rightarrow>
             if d = newline then shell_word False ds
             else map_option ((#) d) (shell_word False ds))
      else if shell_special c then None
      else map_option ((#) c) (shell_word False cs))"

section \<open>Values of the plugin protocol\<close>

text \<open>
  Modelled from the spec: values (strings, decimal numbers, lists, maps and the other
  shapes of section 9 of the specification) come from the library package \<^verbatim>\<open>tftypes\<close>,
  which the sources use and do not contain; so are \<^verbatim>\<open>math/big\<close>, \<^verbatim>\<open>strconv\<close> and \<^verbatim>\<open>fmt\<close> of
  the Go library. A value carries its type and a payload; the payload may be null or
  unknown whatever the type is. \<open>tftypes_nil\<close> stands for the missing type of the zero
  value. A Go map is an association list with distinct keys, whose order is the order in
  which one \<^verbatim>\<open>range\<close> over the map happens to visit the entries; the language fixes no such
  order, and two runs may differ.
\<close>

datatype tftype =
    tftypes_nil
  | tftypes_String
  | tftypes_Number
  | tftypes_Bool
  | tftypes_DynamicPseudoType
  | tftypes_List tftype
  | tftypes_Set tftype
  | tftypes_Map tftype
  | tftypes_Tuple "tftype list"
  | tftypes_Object "(string \<times> tftype) list"

text \<open>
  Modelled from the spec: a number (\<^verbatim>\<open>big.Float\<close>) is the decimal \<open>mant / 10 ^ scale\<close>, the
  shortest decimal that identifies it, which is the one \<^verbatim>\<open>Text('f', -1)\<close> prints. Negative
  zero and the infinities are left out.
\<close>

datatype BigFloat = BigFloat (mant: int) (scale: nat)

datatype Value = Value (typeOf: tftype) (payloadOf: payload)
  and payload =
    Null
  | Unknown
  | StringVal string
  | NumberVal BigFloat
  | BoolVal bool
  | SeqVal "Value list"
  | AttrsVal "(string \<times> Value) list"

datatype error = Error string

fun errorString :: "error \<Rightarrow> string" where
  "errorString (Error msg) = msg"

definition mapOfString :: tftype where
  "mapOfString = tftypes_Map tftypes_String"

definition listOfString :: tftype where
  "listOfString = tftypes_List tftypes_String"

text \<open>
  \<^verbatim>\<open>val.Is(t)\<close> compares the type of the value with \<open>t\<close>. For the four types the sources
  ask about (string, number, list of string, map of string) that is equality of types.
\<close>

definition Is :: "Value \<Rightarrow> tftype \<Rightarrow> bool" where
  "Is val t = (typeOf val = t)"

text \<open>
  \<^verbatim>\<open>val.As(&target)\<close>, one function for each target type the sources use. A null value
  gives the zero value of the target; a payload of another kind (an unknown value among
  them) is an error. The wording of the error is the library's and is abbreviated here.
\<close>

definition cantUnmarshal :: "string \<Rightarrow> error" where
  "cantUnmarshal target = Error (''can't unmarshal value into '' @ target)"

fun As_string :: "Value \<Rightarrow> error + string" where
  "As_string (Value t Null) = Inr []"
| "As_string (Value t (StringVal s)) = Inr s"
| "As_string (Value t p) = Inl (cantUnmarshal ''*string'')"

fun As_BigFloat :: "Value \<Rightarrow> error + BigFloat" where
  "As_BigFloat (Value t Null) = Inr (BigFloat 0 0)"
| "As_BigFloat (Value t (NumberVal f)) = Inr f"
| "As_BigFloat (Value t p) = Inl (cantUnmarshal ''*big.Float'')"

fun As_slice :: "Value \<Rightarrow> error + Value list" where
  "As_slice (Value t Null) = Inr []"
| "As_slice (Value t (SeqVal l)) = Inr l"
| "As_slice (Value t p) = Inl (cantUnmarshal ''*[]tftypes.Value'')"

fun As_map :: "Value \<Rightarrow> error + (string \<times> Value) list" where
  "As_map (Value t Null) = Inr []"
| "As_map (Value t (AttrsVal m)) = Inr m"
| "As_map (Value t p) = Inl (cantUnmarshal ''*map[string]tftypes.Value'')"

text \<open>
  \<^verbatim>\<open>m[k]\<close> on a Go map: the entry, or the zero value of the element type when there is
  none. The zero \<^verbatim>\<open>tftypes.Value\<close> has no type and no payload.
\<close>

definition index :: "(string \<times> Value) list \<Rightarrow> string \<Rightarrow> Value" where
  "index m k = (case map_of m k of Some v \<Rightarrow> v | None \<Rightarrow> Value tftypes_nil Null)"

subsection \<open>Numbers as text\<close>

function showNat :: "nat \<Rightarrow> string" where
  "showNat n =
     (if n < 10 then [''0123456789'' ! n]
      else showNat (n div 10) @ [''0123456789'' ! (n mod 10)])"
  by pat_completeness auto
termination
  by (relation "measure (\<lambda>n. n)") auto

declare showNat.simps [simp del]

definition IsInt :: "BigFloat \<Rightarrow> bool" where
  "IsInt x = (mant x mod 10 ^ scale x = 0)"

definition fractionDigits :: "nat \<Rightarrow> nat \<Rightarrow> string" where
  "fractionDigits k r =
     (let ds = showNat r;
          padded = replicate (k - length ds) (CHR ''0'') @ ds
      in rev (dropWhile (\<lambda>c. c = CHR ''0'') (rev padded)))"

text \<open>\<^verbatim>\<open>f.Text('f', -1)\<close>: sign, integer digits and, when there is a fraction, a point and
  the fraction's digits; never an exponent.\<close>

definition Text_f :: "BigFloat \<Rightarrow> string" where
  "Text_f x =
     (let a = nat \<bar>mant x\<bar>; p = 10 ^ scale x
      in (if mant x < 0 then ''-'' else [])
         @ showNat (a div p)
         @ (if a mod p = 0 then [] else ''.'' @ fractionDigits (scale x) (a mod p)))"

subsection \<open>The verb %q\<close>

text \<open>
  \<^verbatim>\<open>%q\<close> of package \<^verbatim>\<open>fmt\<close> prints a string as a Go string literal (\<^verbatim>\<open>strconv.Quote\<close>):
  between double quotes, with the double quote and the backslash escaped, printable ASCII
  copied, and the other ASCII bytes escaped by letter or in hexadecimal. Bytes from 0x80
  on are copied, as Go does for the printable characters they encode; Go escapes the
  unprintable and the ill-formed ones, which are not told apart here. On ASCII text, and
  so on every name that passes the check of names, the model is exact.
\<close>

definition hexDigit :: "nat \<Rightarrow> char" where
  "hexDigit n = ''0123456789abcdef'' ! n"

definition quoteByte :: "char \<Rightarrow> string" where
  "quoteByte c =
     (if c = dquote \<or> c = backslash then [backslash, c]
      else if CHR 0x20 \<le> c \<and> c \<le> CHR 0x7E then [c]
      else if c = CHR 0x07 then [backslash, CHR ''a'']
      else if c = CHR 0x08 then [backslash, CHR ''b'']
      else if c = CHR 0x0C then [backslash, CHR ''f'']
      else if c = CHR 0x0A then [backslash, CHR ''n'']
      else if c = CHR 0x0D then [backslash, CHR ''r'']
      else if c = CHR 0x09 then [backslash, CHR ''t'']
      else if c = CHR 0x0B then [backslash, CHR ''v'']
      else if c < CHR 0x20 \<or> c = CHR 0x7F then
        [backslash, CHR ''x'', hexDigit (of_char c div 16), hexDigit (of_char c mod 16)]
      else [c])"

definition Quote :: "string \<Rightarrow> string" where
  "Quote s = [dquote] @ concat (map quoteByte s) @ [dquote]"

section \<open>internal/bash/variables.go: variablesToBashDecls\<close>

text \<open>The loop over the elements of a list of strings; \<open>i\<close> is the loop index and \<open>buf\<close>
  the text written so far. An element that does not decode as a string leaves the empty
  string in \<^verbatim>\<open>es\<close>, the error of \<^verbatim>\<open>As\<close> being dropped.\<close>

fun listLoop :: "nat \<Rightarrow> Value list \<Rightarrow> string \<Rightarrow> string" where
  "listLoop i [] buf = buf"
| "listLoop i (ev # l) buf =
     (let es = (case As_string ev of Inr s \<Rightarrow> s | Inl e \<Rightarrow> []);
          buf1 = (if i \<noteq> 0 then buf @ '' '' else buf)
      in listLoop (i + 1) l (buf1 @ bashQuoteString es))"

text \<open>The loop over the entries of a map of strings, in the order the \<^verbatim>\<open>range\<close> visits
  them.\<close>

fun mapLoop :: "nat \<Rightarrow> (string \<times> Value) list \<Rightarrow> string \<Rightarrow> string" where
  "mapLoop i [] buf = buf"
| "mapLoop i ((ek, ev) # m) buf =
     (let es = (case As_string ev of Inr s \<Rightarrow> s | Inl e \<Rightarrow> []);
          buf1 = (if i \<noteq> 0 then buf @ '' '' else buf)
      in mapLoop (i + 1) m (buf1 @ bashQuoteString ek @ '' '' @ bashQuoteString es))"

text \<open>The body of the loop over the sorted names: the \<^verbatim>\<open>switch\<close> on the type of the
  value, writing one declaration to \<open>buf\<close>.\<close>

definition writeDecl :: "string \<Rightarrow> Value \<Rightarrow> string \<Rightarrow> string" where
  "writeDecl name val buf =
     (if Is val tftypes_String then
        (let s = (case As_string val of Inr s \<Rightarrow> s | Inl e \<Rightarrow> [])
         in buf @ ''declare -r '' @ name @ ''='' @ bashQuoteString s @ [newline])
      else if Is val tftypes_Number then
        (let f = (case As_BigFloat val of Inr f \<Rightarrow> f | Inl e \<Rightarrow> BigFloat 0 0)
         in buf @ ''declare -ri '' @ name @ ''='' @ Text_f f @ [newline])
      else if Is val listOfString then
        (let l = (case As_slice val of Inr l \<Rightarrow> l | Inl e \<Rightarrow> [])
         in listLoop 0 l (buf @ ''declare -ra '' @ name @ ''=('') @ '')'' @ [newline])
      else if Is val mapOfString then
        (let m = (case As_map val of Inr m \<Rightarrow> m | Inl e \<Rightarrow> [])
         in mapLoop 0 m (buf @ ''declare -rA '' @ name @ ''=('') @ '')'' @ [newline])
      else
        buf @ ''# ERROR: Don'' @ [squote] @ ''t know how to serialize '' @ Quote name
          @ '' for bash'' @ [newline])"

fun declsLoop :: "(string \<times> Value) list \<Rightarrow> string list \<Rightarrow> string \<Rightarrow> string" where
  "declsLoop vars [] buf = buf"
| "declsLoop vars (name # names) buf = declsLoop vars names (writeDecl name (index vars name) buf)"

text \<open>\<open>map fst vars\<close> is the slice \<^verbatim>\<open>names\<close> as the first loop fills it, \<open>sort\<close> is
  \<^verbatim>\<open>sort.Strings\<close>.\<close>

definition variablesToBashDecls :: "(string \<times> Value) list \<Rightarrow> string" where
  "variablesToBashDecls vars =
     (if length vars = 0 then []
      else declsLoop vars (sort (map fst vars)) [])"

subsection \<open>validVariableName\<close>

text \<open>
  The loop of \<^verbatim>\<open>validVariableName\<close> ranges over the characters of the name. A character
  outside ASCII is encoded by bytes from 0x80 on and is refused at either position, as is
  each of its bytes here, so the check is written on bytes.
\<close>

definition validVariableNameInitialCharacter :: "char \<Rightarrow> bool" where
  "validVariableNameInitialCharacter c =
     (if c = CHR ''_'' then True
      else if c \<ge> CHR ''A'' \<and> c \<le> CHR ''Z'' then True
      else if c \<ge> CHR ''a'' \<and> c \<le> CHR ''z'' then True
      else False)"

definition validVariableNameSubsequentCharacter :: "char \<Rightarrow> bool" where
  "validVariableNameSubsequentCharacter c =
     (if validVariableNameInitialCharacter c then True
      else if c \<ge> CHR ''0'' \<and> c \<le> CHR ''9'' then True
      else False)"

fun validVariableNameLoop :: "nat \<Rightarrow> string \<Rightarrow> bool" where
  "validVariableNameLoop i [] = True"
| "validVariableNameLoop i (c # s) =
     (if i = 0 then
        (if \<not> validVariableNameInitialCharacter c then False
         else validVariableNameLoop (i + 1) s)
      else
        (if \<not> validVariableNameSubsequentCharacter c then False
         else validVariableNameLoop (i + 1) s))"

definition validVariableName :: "string \<Rightarrow> bool" where
  "validVariableName s = (if length s = 0 then False else validVariableNameLoop 0 s)"

section \<open>internal/bash/bash_script_drt.go\<close>

datatype DiagnosticSeverity =
  DiagnosticSeverityInvalid | DiagnosticSeverityError | DiagnosticSeverityWarning

datatype AttributePathStep = AttributeName string

datatype AttributePath = AttributePath (Steps: "AttributePathStep list")

record Diagnostic =
  Severity :: DiagnosticSeverity
  Summary :: string
  Detail :: string
  Attribute :: "AttributePath option"

record bashScriptConfig =
  Source :: string
  Variables :: "(string \<times> Value) list"

definition bashScriptType :: tftype where
  "bashScriptType = tftypes_Object
     [(''source'', tftypes_String),
      (''variables'', tftypes_DynamicPseudoType),
      (''result'', tftypes_String)]"

text \<open>
  Modelled from the spec: the wire form of a value (\<^verbatim>\<open>tfprotov5.DynamicValue\<close>) and its
  decoding belong to the plugin protocol. A wire value is identified with what decoding
  it against the schema gives: an error, or the decoded value.
\<close>

datatype DynamicValue = Undecodable error | Decodable Value

fun Unmarshal :: "DynamicValue \<Rightarrow> tftype \<Rightarrow> error + Value" where
  "Unmarshal (Undecodable err) t = Inl err"
| "Unmarshal (Decodable v) t = Inr v"

text \<open>What a Go function call comes to: a panic, a returned error, or a result.\<close>

datatype 'a outcome = Panic string | Fail error | Return 'a

subsection \<open>The diagnostics of newBashScriptConfig\<close>

definition invalidConfiguration :: "error \<Rightarrow> Diagnostic" where
  "invalidConfiguration err =
     \<lparr>Severity = DiagnosticSeverityError,
      Summary = ''Invalid configuration'',
      Detail = ''The given configuration doesn't match the expected schema: ''
                 @ errorString err @ ''.'',
      Attribute = None\<rparr>"

definition invalidVariables :: Diagnostic where
  "invalidVariables =
     \<lparr>Severity = DiagnosticSeverityError,
      Summary = ''Invalid variables'',
      Detail = ''The '' @ [dquote] @ ''variables'' @ [dquote]
                 @ '' argument must be an object with one attribute per variable you wish to declare for the Bash script.'',
      Attribute = Some (AttributePath [AttributeName ''variables''])\<rparr>"

definition emptyVariableName :: "string \<Rightarrow> Diagnostic" where
  "emptyVariableName name =
     \<lparr>Severity = DiagnosticSeverityError,
      Summary = ''Invalid variable name'',
      Detail = ''The empty string is not a valid Bash variable name.'',
      Attribute = Some (AttributePath [AttributeName ''variables'', AttributeName name])\<rparr>"

definition invalidVariableName :: "string \<Rightarrow> Diagnostic" where
  "invalidVariableName name =
     \<lparr>Severity = DiagnosticSeverityError,
      Summary = ''Invalid variable name'',
      Detail = ''Cannot use '' @ Quote name @ '' as a Bash variable name.'',
      Attribute = Some (AttributePath [AttributeName ''variables'', AttributeName name])\<rparr>"

definition numberNotDecoded :: "string \<Rightarrow> error \<Rightarrow> Diagnostic" where
  "numberNotDecoded name err =
     \<lparr>Severity = DiagnosticSeverityError,
      Summary = ''Invalid variable value'',
      Detail = ''Failed to decode '' @ Quote name @ '' as a number: '' @ errorString err @ ''.'',
      Attribute = Some (AttributePath [AttributeName ''variables'', AttributeName name])\<rparr>"

definition fractionalNumber :: "string \<Rightarrow> BigFloat \<Rightarrow> Diagnostic" where
  "fractionalNumber name f =
     \<lparr>Severity = DiagnosticSeverityError,
      Summary = ''Invalid variable value'',
      Detail = ''Can't use '' @ Text_f f @ '' as value of '' @ Quote name
                 @ '': Bash doesn't support floating-point numbers.'',
      Attribute = Some (AttributePath [AttributeName ''variables'', AttributeName name])\<rparr>"

definition unsupportedValue :: "string \<Rightarrow> Diagnostic" where
  "unsupportedValue name =
     \<lparr>Severity = DiagnosticSeverityError,
      Summary = ''Invalid variable value'',
      Detail = ''Invalid value for Bash variable '' @ Quote name
                 @ '': Bash only supports strings, whole numbers, lists of strings, and maps of strings.'',
      Attribute = Some (AttributePath [AttributeName ''variables'', AttributeName name])\<rparr>"

subsection \<open>newBashScriptConfig\<close>

text \<open>The body of the loop over \<^verbatim>\<open>ret.Variables\<close>: \<open>diags\<close> goes in and comes out, with at
  most one diagnostic appended; each \<^verbatim>\<open>continue\<close> is a branch that returns.\<close>

definition checkVariable :: "string \<Rightarrow> Value \<Rightarrow> Diagnostic list \<Rightarrow> Diagnostic list" where
  "checkVariable name val diags =
     (if length name = 0 then diags @ [emptyVariableName name]
      else if \<not> validVariableName name then diags @ [invalidVariableName name]
      else if Is val tftypes_String then diags
      else if Is val tftypes_Number then
        (case As_BigFloat val of
           Inl err \<Rightarrow> diags @ [numberNotDecoded name err]
         | Inr f \<Rightarrow> if \<not> IsInt f then diags @ [fractionalNumber name f] else diags)
      else if Is val listOfString then diags
      else if Is val mapOfString then diags
      else diags @ [unsupportedValue name])"

text \<open>The loop itself, over the entries in the order the \<^verbatim>\<open>range\<close> visits them.\<close>

fun variablesLoop :: "(string \<times> Value) list \<Rightarrow> Diagnostic list \<Rightarrow> Diagnostic list" where
  "variablesLoop [] diags = diags"
| "variablesLoop ((name, val) # rest) diags = variablesLoop rest (checkVariable name val diags)"

definition newBashScriptConfig ::
  "DynamicValue \<Rightarrow> (bashScriptConfig \<times> Diagnostic list) outcome" where
  "newBashScriptConfig raw =
     (let ret = \<lparr>Source = [], Variables = []\<rparr> in
      case Unmarshal raw bashScriptType of
        Inl err \<Rightarrow> Return (ret, [invalidConfiguration err])
      | Inr lessRaw \<Rightarrow>
          (case As_map lessRaw of
             Inl err \<Rightarrow> Return (ret, [invalidConfiguration err])
           | Inr obj \<Rightarrow>
               (case As_string (index obj ''source'') of
                  Inl err \<Rightarrow> Panic ''source isn't a string''
                | Inr src \<Rightarrow>
                    (let ret = ret\<lparr>Source := src\<rparr> in
                     case As_map (index obj ''variables'') of
                       Inl err \<Rightarrow>
                         Return (ret, variablesLoop (Variables ret) [invalidVariables])
                     | Inr vars \<Rightarrow>
                         (let ret = ret\<lparr>Variables := vars\<rparr>
                          in Return (ret, variablesLoop (Variables ret) []))))))"

subsection \<open>The result object\<close>

definition variablesType :: "(string \<times> Value) list \<Rightarrow> tftype" where
  "variablesType vars =
     (if length vars = 0 then tftypes_Object []
      else tftypes_Object
        (map (\<lambda>(k, v).
            (k, if Is v tftypes_String then tftypes_String
                else if Is v tftypes_Number then tftypes_Number
                else if Is v listOfString then listOfString
                else if Is v mapOfString then mapOfString
                else tftypes_DynamicPseudoType)) vars))"

definition ResultObject :: "bashScriptConfig \<Rightarrow> string \<Rightarrow> Value" where
  "ResultObject c result =
     (let vty = variablesType (Variables c)
      in Value bashScriptType (AttrsVal
           [(''source'', Value tftypes_String (StringVal (Source c))),
            (''variables'', Value vty (AttrsVal (Variables c))),
            (''result'', Value tftypes_String (StringVal result))]))"

text \<open>Encoding the result object for the wire is taken to succeed, as the sources expect
  (they panic otherwise).\<close>

definition ResultDynamicValue :: "bashScriptConfig \<Rightarrow> string \<Rightarrow> DynamicValue" where
  "ResultDynamicValue c result = Decodable (ResultObject c result)"

section \<open>The provider: ReadDataSource\<close>

record ReadDataSourceRequest =
  TypeName :: string
  Config :: DynamicValue

record ReadDataSourceResponse =
  State :: "DynamicValue option"
  Diagnostics :: "Diagnostic list"

definition ReadDataSource :: "ReadDataSourceRequest \<Rightarrow> ReadDataSourceResponse outcome" where
  "ReadDataSource req =
     (if TypeName req \<noteq> ''bash_script'' then
        Fail (Error (''unsupported data resource type '' @ TypeName req))
      else
        (case newBashScriptConfig (Config req) of
           Panic msg \<Rightarrow> Panic msg
         | Fail err \<Rightarrow> Fail err
         | Return (config, diags) \<Rightarrow>
             if length diags \<noteq> 0 then Return \<lparr>State = None, Diagnostics = diags\<rparr>
             else
               (let varDecls = variablesToBashDecls (Variables config);
                    ret = ResultDynamicValue config varDecls
                in Return \<lparr>State = Some ret, Diagnostics = diags\<rparr>)))"

section \<open>What the claims are stated with\<close>





text \<open>The wire value of a configuration with the given source and variables, the result
  not yet known.\<close>

definition configOf :: "string \<Rightarrow> (string \<times> Value) list \<Rightarrow> DynamicValue" where
  "configOf source vars =
     Decodable (Value bashScriptType (AttrsVal
       [(''source'', Value tftypes_String (StringVal source)),
        (''variables'', Value (variablesType vars) (AttrsVal vars)),
        (''result'', Value tftypes_String Unknown)]))"

text \<open>
  Modelled from the spec: the merge step the specification describes and the sources
  leave undone. When the first line of the body begins with \<^verbatim>\<open>#!\<close>, that line comes
  first, then the declarations, then the rest of the body; otherwise the declarations
  come before the whole body. The first line includes its newline when it has one.
\<close>

definition firstLine :: "string \<Rightarrow> string" where
  "firstLine body =
     (let l = takeWhile (\<lambda>c. c \<noteq> newline) body
      in if length l < length body then l @ [newline] else l)"

definition mergeWithBody :: "string \<Rightarrow> string \<Rightarrow> string" where
  "mergeWithBody decls body =
     (if take 2 body = ''#!'' then firstLine body @ decls @ drop (length (firstLine body)) body
      else decls @ body)"

text \<open>The \<^verbatim>\<open>result\<close> attribute of the state a call returned, when there is one.\<close>

definition resultString :: "ReadDataSourceResponse outcome \<Rightarrow> string option" where
  "resultString out =
     (case out of
        Return resp \<Rightarrow>
          (case State resp of
             Some (Decodable v) \<Rightarrow>
               (case As_map v of
                  Inr obj \<Rightarrow>
                    (case As_string (index obj ''result'') of
                       Inr s \<Rightarrow> Some s
                     | Inl e \<Rightarrow> None)
                | Inl e \<Rightarrow> None)
           | _ \<Rightarrow> None)
      | _ \<Rightarrow> None)"

subsection \<open>Example configurations\<close>


definition scriptBody :: string where
  "scriptBody = ''#!/bin/bash'' @ [newline] @ ''echo hi'' @ [newline]"

definition greetingVariables :: "(string \<times> Value) list" where
  "greetingVariables = [(''greeting'', Value tftypes_String (StringVal ''Hello''))]"




section \<open>Quoting round trip\<close>

lemma shell_word_ReplaceAll:
  "shell_word True (ReplaceAll s squote [squote, backslash, squote, squote] @ squote # rest)
     = map_option ((@) s) (shell_word False rest)"
proof (induction s)
  case Nil
  show ?case by (simp add: option.map_ident)
next
  case (Cons c s)
  show ?case
  proof (cases "c = squote")
    case True
    then show ?thesis using Cons.IH by (simp add: option.map_comp comp_def)
  next
    case False
    then show ?thesis using Cons.IH by (simp add: option.map_comp comp_def)
  qed
qed

lemma ReplaceAll_concat:
  "ReplaceAll s old new = concat (map (\<lambda>c. if c = old then new else [c]) s)"
  by (induction s) simp_all

section \<open>Validation: the loop and its diagnostics\<close>




























section \<open>Encoding: the loops and their text\<close>

lemma listLoop_append: "listLoop i l (a @ b) = a @ listLoop i l b"
  by (induction l arbitrary: i b) (simp_all add: Let_def)

lemma mapLoop_append: "mapLoop i m (a @ b) = a @ mapLoop i m b"
proof (induction m arbitrary: i b)
  case Nil
  show ?case by simp
next
  case (Cons p m)
  obtain ek ev where p: "p = (ek, ev)" by (cases p)
  have step: "\<And>j c. mapLoop j m (a @ c) = a @ mapLoop j m c" by (rule Cons.IH)
  show ?case
  proof (cases "i = 0")
    case True
    show ?thesis
      using step [of "Suc 0" "b @ bashQuoteString ek @ '' '' @ bashQuoteString (case As_string ev of Inr s \<Rightarrow> s | Inl e \<Rightarrow> [])"]
      by (simp add: p True)
  next
    case False
    show ?thesis
      using step [of "Suc i" "b @ '' '' @ bashQuoteString ek @ '' '' @ bashQuoteString (case As_string ev of Inr s \<Rightarrow> s | Inl e \<Rightarrow> [])"]
      by (simp add: p False)
  qed
qed

lemma writeDecl_append: "writeDecl name val buf = buf @ writeDecl name val []"
  using listLoop_append [of 0 _ buf] mapLoop_append [of 0 _ buf]
  by (simp add: writeDecl_def Let_def)

lemma declsLoop_concat:
  "declsLoop vars names buf = buf @ concat (map (\<lambda>n. writeDecl n (index vars n) []) names)"
proof (induction names arbitrary: buf)
  case Nil
  show ?case by simp
next
  case (Cons n names)
  show ?case
    using Cons.IH [of "writeDecl n (index vars n) buf"] writeDecl_append [of n "index vars n" buf]
    by simp
qed

lemma variablesToBashDecls_concat:
  "variablesToBashDecls vars =
     concat (map (\<lambda>n. writeDecl n (index vars n) []) (sort (map fst vars)))"
  by (cases vars) (simp_all add: variablesToBashDecls_def declsLoop_concat [of _ _ "[]"])















lemma variablesToBashDecls_outer_order:
  assumes "distinct (map fst a)" and "distinct (map fst b)" and "set a = set b"
  shows "variablesToBashDecls a = variablesToBashDecls b"
proof -
  have s: "set (map fst a) = set (map fst b)" using assms(3) by simp
  have names: "sort (map fst a) = sort (map fst b)"
    by (rule sorted_distinct_set_unique) (simp_all add: assms(1,2) s del: set_map)
  have "map_of a = map_of b"
    using assms by (simp add: map_of_inject_set)
  then have "index a = index b" by (simp add: index_def fun_eq_iff)
  then show ?thesis by (simp add: variablesToBashDecls_concat names)
qed

section \<open>The claims\<close>

text \<open>
  Claim C1. For every string \<open>s\<close> (empty, or with single quotes, newlines, blanks or shell
  metacharacters in it), \<open>bashQuoteString s\<close> is \<open>s\<close> between two single quotes with every
  single quote of \<open>s\<close> replaced by the four bytes quote, backslash, quote, quote; and the
  shell reads the quoted form as one word whose value is exactly \<open>s\<close>.
\<close>

theorem bashQuoteString_roundtrip:
  "bashQuoteString s =
     [squote] @ concat (map (\<lambda>c. if c = squote then [squote, backslash, squote, squote] else [c]) s)
       @ [squote]
   \<and> shell_word False (bashQuoteString s) = Some s"
proof
  show "bashQuoteString s =
     [squote] @ concat (map (\<lambda>c. if c = squote then [squote, backslash, squote, squote] else [c]) s)
       @ [squote]"
    by (simp add: bashQuoteString_def ReplaceAll_concat)
next
  have "shell_word True (ReplaceAll s squote [squote, backslash, squote, squote] @ squote # [])
          = map_option ((@) s) (shell_word False [])"
    by (rule shell_word_ReplaceAll)
  then show "shell_word False (bashQuoteString s) = Some s"
    by (simp add: bashQuoteString_def)
qed

text \<open>
  Claim C2. The claim asks for the declarations merged with the source body, the
  interpreter line first. On a configuration that validates without diagnostics, with a
  body that starts with an interpreter line, \<^verbatim>\<open>ReadDataSource\<close> returns as result the
  declarations alone: the body is in no part of it, where the merge of the specification
  would put the interpreter line, the declarations and the rest of the body.
\<close>

theorem result_is_declarations_only:
  "ReadDataSource \<lparr>TypeName = ''bash_script'', Config = configOf scriptBody greetingVariables\<rparr>
     = Return
         \<lparr>State = Some (ResultDynamicValue \<lparr>Source = scriptBody, Variables = greetingVariables\<rparr>
            (''declare -r greeting='' @ [squote] @ ''Hello'' @ [squote] @ [newline])),
          Diagnostics = []\<rparr>
   \<and> resultString
       (ReadDataSource \<lparr>TypeName = ''bash_script'', Config = configOf scriptBody greetingVariables\<rparr>)
     = Some (''declare -r greeting='' @ [squote] @ ''Hello'' @ [squote] @ [newline])
   \<and> mergeWithBody (''declare -r greeting='' @ [squote] @ ''Hello'' @ [squote] @ [newline]) scriptBody
     = ''#!/bin/bash'' @ [newline]
       @ ''declare -r greeting='' @ [squote] @ ''Hello'' @ [squote] @ [newline]
       @ ''echo hi'' @ [newline]
   \<and> resultString
       (ReadDataSource \<lparr>TypeName = ''bash_script'', Config = configOf scriptBody greetingVariables\<rparr>)
     \<noteq> Some (mergeWithBody (variablesToBashDecls greetingVariables) scriptBody)"
  by code_simp

text \<open>
  Claim C3. The claim asks for the same text whatever the iteration order of the maps.
  The names of the variables are sorted before they are rendered
  (\<open>variablesToBashDecls_outer_order\<close>), the entries of a map of strings are not: the same
  map, visited in its two possible orders, gives two different declarations.
\<close>

theorem map_entries_follow_iteration_order:
  "variablesToBashDecls
     [(''ids'', Value mapOfString (AttrsVal
        [(''a'', Value tftypes_String (StringVal ''i-123'')),
         (''b'', Value tftypes_String (StringVal ''i-456''))]))]
     = ''declare -rA ids=('' @ [squote] @ ''a'' @ [squote] @ '' '' @ [squote] @ ''i-123'' @ [squote]
         @ '' '' @ [squote] @ ''b'' @ [squote] @ '' '' @ [squote] @ ''i-456'' @ [squote]
         @ '')'' @ [newline]
   \<and> variablesToBashDecls
     [(''ids'', Value mapOfString (AttrsVal
        [(''b'', Value tftypes_String (StringVal ''i-456'')),
         (''a'', Value tftypes_String (StringVal ''i-123''))]))]
     = ''declare -rA ids=('' @ [squote] @ ''b'' @ [squote] @ '' '' @ [squote] @ ''i-456'' @ [squote]
         @ '' '' @ [squote] @ ''a'' @ [squote] @ '' '' @ [squote] @ ''i-123'' @ [squote]
         @ '')'' @ [newline]
   \<and> variablesToBashDecls
     [(''ids'', Value mapOfString (AttrsVal
        [(''a'', Value tftypes_String (StringVal ''i-123'')),
         (''b'', Value tftypes_String (StringVal ''i-456''))]))]
     \<noteq> variablesToBashDecls
     [(''ids'', Value mapOfString (AttrsVal
        [(''b'', Value tftypes_String (StringVal ''i-456'')),
         (''a'', Value tftypes_String (StringVal ''i-123''))]))]
   \<and> map_of [(''a'', Value tftypes_String (StringVal ''i-123'')),
              (''b'', Value tftypes_String (StringVal ''i-456''))]
     = map_of [(''b'', Value tftypes_String (StringVal ''i-456'')),
              (''a'', Value tftypes_String (StringVal ''i-123''))]"
proof (intro conjI)
  show "map_of [(''a'', Value tftypes_String (StringVal ''i-123'')),
              (''b'', Value tftypes_String (StringVal ''i-456''))]
     = map_of [(''b'', Value tftypes_String (StringVal ''i-456'')),
              (''a'', Value tftypes_String (StringVal ''i-123''))]"
    by (simp add: fun_eq_iff)
qed code_simp+











text \<open>
  Claim C8. For the empty variable set the encoder gives the empty text. The result
  that \<^verbatim>\<open>ReadDataSource\<close> returns for it is that empty text, not the source body, which
  the merge of the specification would return unchanged.
\<close>

theorem empty_variables_empty_result:
  "variablesToBashDecls [] = []
   \<and> ReadDataSource \<lparr>TypeName = ''bash_script'', Config = configOf ''echo hi'' []\<rparr>
     = Return
         \<lparr>State = Some (ResultDynamicValue \<lparr>Source = ''echo hi'', Variables = []\<rparr> []),
          Diagnostics = []\<rparr>
   \<and> resultString (ReadDataSource \<lparr>TypeName = ''bash_script'', Config = configOf ''echo hi'' []\<rparr>)
     = Some []
   \<and> mergeWithBody [] ''echo hi'' = ''echo hi''
   \<and> resultString (ReadDataSource \<lparr>TypeName = ''bash_script'', Config = configOf ''echo hi'' []\<rparr>)
     \<noteq> Some ''echo hi''"
  by code_simp





end
